theory Spec2Isabelle
  imports Main
begin

section \<open>Python values and string helpers used by the facade\<close>

text \<open>
  The facade \<open>SynoSurveillanceStation\<close> hands request parameters to the transport
  as Python values: integers, strings and booleans.
\<close>

datatype pyval = PyInt int | PyStr string | PyBool bool

text \<open>\<open>str(k)\<close> for an integer \<open>k\<close>: the decimal numeral, with a leading minus sign.\<close>

definition digit_char :: "nat \<Rightarrow> char" where
  "digit_char d = char_of (48 + d)"

fun str_nat :: "nat \<Rightarrow> string" where
  "str_nat n = (if n < 10 then [digit_char n] else str_nat (n div 10) @ [digit_char (n mod 10)])"

declare str_nat.simps [simp del]

definition str_int :: "int \<Rightarrow> string" where
  "str_int i = (if i < 0 then CHR ''-'' # str_nat (nat (- i)) else str_nat (nat i))"

text \<open>\<open>str(state)\<close> for a boolean, and \<open>.lower()\<close> on ASCII text.\<close>

definition str_bool :: "bool \<Rightarrow> string" where
  "str_bool b = (if b then ''True'' else ''False'')"

definition lower_char :: "char \<Rightarrow> char" where
  "lower_char c =
     (if 65 \<le> (of_char c :: nat) \<and> (of_char c :: nat) \<le> 90
      then char_of ((of_char c :: nat) + 32) else c)"

definition lower :: "string \<Rightarrow> string" where
  "lower s = map lower_char s"

text \<open>\<open>sep.join(xs)\<close>.\<close>

fun join :: "string \<Rightarrow> string list \<Rightarrow> string" where
  "join sep [] = []"
| "join sep [x] = x"
| "join sep (x # y # ys) = x @ sep @ join sep (y # ys)"

text \<open>\<open>int(save)\<close> for a boolean.\<close>

definition int_of_bool :: "bool \<Rightarrow> int" where
  "int_of_bool b = (if b then 1 else 0)"

section \<open>Dictionaries with insertion order\<close>

text \<open>
  \<open>self._data\<close> is a Python \<open>dict\<close>: keys are unique and iteration follows insertion
  order, which the comma-joined \<open>idList\<close> depends on. It is an association list;
  \<open>dict_set\<close> is \<open>d[k] = v\<close> (replace in place, or append a new key), and \<open>map_of\<close>
  is the lookup.
\<close>

fun dict_set :: "int \<Rightarrow> 'v \<Rightarrow> (int \<times> 'v) list \<Rightarrow> (int \<times> 'v) list" where
  "dict_set k v [] = [(k, v)]"
| "dict_set k v ((k', v') # d) = (if k' = k then (k, v) # d else (k', v') # dict_set k v d)"

text \<open>
  \<open>d[k].method(...)\<close> on a stored object that the method changes in place: the entry
  under \<open>k\<close> is replaced by the changed object and keeps its position.
\<close>

fun dict_apply :: "int \<Rightarrow> ('v \<Rightarrow> 'v) \<Rightarrow> (int \<times> 'v) list \<Rightarrow> (int \<times> 'v) list" where
  "dict_apply k f [] = []"
| "dict_apply k f ((k', v') # d) =
     (if k' = k then (k', f v') # d else (k', v') # dict_apply k f d)"

definition dict_keys :: "(int \<times> 'v) list \<Rightarrow> int list" where
  "dict_keys d = map fst d"

section \<open>Payloads and the camera data holder\<close>

text \<open>
  Modelled from the spec: the decoded payloads of the backend's answers. The transport
  that decodes them is not among the sources; section 3 of the specification gives a
  camera an integer identifier and display attributes, a motion-detection flag, and a
  live-view entity mapping transport names to URLs. The records keep exactly the
  fields the facade reads (\<open>camera_data["id"]\<close>, \<open>live_view_data["id"]\<close>) and carry
  the rest as attribute lists.
\<close>

record camera_data =
  cd_id :: int
  cd_attrs :: "(string \<times> string) list"

record motion_data =
  md_enabled :: bool

record live_view_data =
  lv_id :: int
  lv_paths :: "(string \<times> string) list"

text \<open>
  Modelled from the spec: the class \<open>SynoCamera\<close> (module \<open>camera\<close>, not among the
  sources). A camera holds its list data, the cached motion-detection flag and its
  live-view entity; the latter two are absent until the matching update step has
  applied them.
\<close>

record SynoCamera =
  cam_data :: camera_data
  motion_detection_enabled :: "bool option"
  live_view :: "live_view_data option"

text \<open>Modelled from the spec: the constructor \<open>SynoCamera(camera_data)\<close>.\<close>

definition SynoCamera_init :: "camera_data \<Rightarrow> SynoCamera" where
  "SynoCamera_init cd =
     \<lparr>cam_data = cd, motion_detection_enabled = None, live_view = None\<rparr>"

text \<open>
  Modelled from the spec: \<open>SynoCamera.update(camera_data)\<close>, which merges the new
  fields into the existing entry (a new attribute replaces an old one of the same name).
\<close>

fun merge_attrs :: "(string \<times> string) list \<Rightarrow> (string \<times> string) list \<Rightarrow> (string \<times> string) list" where
  "merge_attrs old [] = old"
| "merge_attrs old ((a, v) # new) =
     merge_attrs (if a \<in> set (map fst old)
                  then map (\<lambda>(a', v'). if a' = a then (a, v) else (a', v')) old
                  else old @ [(a, v)]) new"

definition SynoCamera_update :: "SynoCamera \<Rightarrow> camera_data \<Rightarrow> SynoCamera" where
  "SynoCamera_update c cd =
     c\<lparr>cam_data := \<lparr>cd_id = cd_id cd,
                      cd_attrs = merge_attrs (cd_attrs (cam_data c)) (cd_attrs cd)\<rparr>\<rparr>"

text \<open>Modelled from the spec: \<open>SynoCamera.update_motion_detection(data)\<close>.\<close>

definition update_motion_detection :: "SynoCamera \<Rightarrow> motion_data \<Rightarrow> SynoCamera" where
  "update_motion_detection c md = c\<lparr>motion_detection_enabled := Some (md_enabled md)\<rparr>"

text \<open>Modelled from the spec: \<open>SynoCamera.live_view.update(live_view_data)\<close>.\<close>

definition live_view_update :: "SynoCamera \<Rightarrow> live_view_data \<Rightarrow> SynoCamera" where
  "live_view_update c lv = c\<lparr>live_view := Some lv\<rparr>"

text \<open>Modelled from the spec: the property \<open>SynoCamera.is_motion_detection_enabled\<close>.\<close>

definition cam_is_motion_detection_enabled :: "SynoCamera \<Rightarrow> bool option" where
  "cam_is_motion_detection_enabled c = motion_detection_enabled c"

section \<open>Requests, failures and the backend\<close>

text \<open>
  One call \<open>self._dsm.get(api, method, params, max_version=...)\<close>. \<open>req_params\<close> is
  \<open>None\<close> when the call passes no parameter dictionary.
\<close>

record request =
  req_api :: string
  req_method :: string
  req_params :: "(string \<times> pyval) list option"
  req_max_version :: "int option"

text \<open>
  Modelled from the spec: the failures of the transport (section 7: network, auth,
  malformed JSON); the transport is not among the sources.
\<close>

datatype transport_failure = NetworkFailure | AuthFailure | MalformedJSON

text \<open>What a call of the facade can raise.\<close>

datatype py_error = Transport transport_failure | KeyError int

text \<open>
  Modelled from the spec: the backend behind \<open>self._dsm.get\<close>, seen through the part
  of the answer each call site reads: \<open>["data"]["cameras"]\<close> of a camera list,
  \<open>["data"]\<close> of a motion enumeration and of the live-view paths, \<open>["success"]\<close>,
  \<open>["data"]["on"]\<close>, or the undecoded answer. Each view either fails in the transport
  or yields the payload.
\<close>

datatype raw_response = RawResponse string

record backend =
  camera_list :: "request \<Rightarrow> transport_failure + camera_data list"
  motion_enum :: "request \<Rightarrow> transport_failure + motion_data"
  live_view_paths :: "request \<Rightarrow> transport_failure + live_view_data list"
  success_flag :: "request \<Rightarrow> transport_failure + bool"
  home_mode_on :: "request \<Rightarrow> transport_failure + bool"
  raw_reply :: "request \<Rightarrow> transport_failure + raw_response"

text \<open>
  Modelled from the spec: the constants of module \<open>const\<close> (not among the sources)
  that the facade sends; their values are parameters.
\<close>

record const =
  MOTION_DETECTION_BY_SURVEILLANCE :: pyval
  MOTION_DETECTION_DISABLED :: pyval
  SNAPSHOT_PROFILE_BALANCED :: pyval

section \<open>The facade's state\<close>

text \<open>
  \<open>data\<close> is \<open>self._data\<close>. \<open>dsm_log\<close> records the requests issued through
  \<open>self._dsm\<close>, oldest first; the source has no such field, it makes the calls
  observable.
\<close>

record station =
  data :: "(int \<times> SynoCamera) list"
  dsm_log :: "request list"

definition CAMERA_API_KEY :: string where
  "CAMERA_API_KEY = ''SYNO.SurveillanceStation.Camera''"

definition INFO_API_KEY :: string where
  "INFO_API_KEY = ''SYNO.SurveillanceStation.Info''"

definition CAMERA_EVENT_API_KEY :: string where
  "CAMERA_EVENT_API_KEY = ''SYNO.SurveillanceStation.Camera.Event''"

definition HOME_MODE_API_KEY :: string where
  "HOME_MODE_API_KEY = ''SYNO.SurveillanceStation.HomeMode''"

definition SNAPSHOT_API_KEY :: string where
  "SNAPSHOT_API_KEY = ''SYNO.SurveillanceStation.SnapShot''"

text \<open>
  \<open>await self._dsm.get(...)\<close>: the request is issued (logged), and a failure of the
  transport is raised to the caller as it is.
\<close>

definition dsm_get ::
  "(request \<Rightarrow> transport_failure + 'a) \<Rightarrow> request \<Rightarrow> station \<Rightarrow> (py_error + 'a) \<times> station" where
  "dsm_get view rq s =
     (case view rq of Inl e \<Rightarrow> Inl (Transport e) | Inr v \<Rightarrow> Inr v,
      s\<lparr>dsm_log := dsm_log s @ [rq]\<rparr>)"

section \<open>update\<close>

definition list_request :: request where
  "list_request =
     \<lparr>req_api = CAMERA_API_KEY, req_method = ''List'', req_params = None,
      req_max_version = Some 7\<rparr>"

definition motion_request :: "int \<Rightarrow> request" where
  "motion_request camera_id =
     \<lparr>req_api = CAMERA_EVENT_API_KEY, req_method = ''MotionEnum'',
      req_params = Some [(''camId'', PyInt camera_id)], req_max_version = None\<rparr>"

definition live_view_request :: "string \<Rightarrow> request" where
  "live_view_request id_list =
     \<lparr>req_api = CAMERA_API_KEY, req_method = ''GetLiveViewPath'',
      req_params = Some [(''idList'', PyStr id_list)], req_max_version = None\<rparr>"

text \<open>The first loop of \<open>update\<close>: create or update an entry per camera record.\<close>

fun list_step :: "camera_data list \<Rightarrow> (int \<times> SynoCamera) list \<Rightarrow> (int \<times> SynoCamera) list" where
  "list_step [] d = d"
| "list_step (camera_data # rest) d =
     list_step rest
       (if cd_id camera_data \<in> set (dict_keys d)
        then dict_apply (cd_id camera_data) (\<lambda>camera. SynoCamera_update camera camera_data) d
        else dict_set (cd_id camera_data) (SynoCamera_init camera_data) d)"

text \<open>
  The second loop: one \<open>MotionEnum\<close> call per registry entry, in order. The camera
  object is changed in place; a failing call leaves the earlier changes standing.
\<close>

fun motion_step :: "backend \<Rightarrow> int list \<Rightarrow> station \<Rightarrow> (py_error + unit) \<times> station" where
  "motion_step B [] s = (Inr (), s)"
| "motion_step B (camera_id # rest) s =
     (case dsm_get (motion_enum B) (motion_request camera_id) s of
        (Inl e, s') \<Rightarrow> (Inl e, s')
      | (Inr motion_raw_data, s') \<Rightarrow>
          motion_step B rest
            (s'\<lparr>data := dict_apply camera_id
                 (\<lambda>camera. update_motion_detection camera motion_raw_data) (data s')\<rparr>))"

text \<open>The last loop: \<open>self._data[live_view_data["id"]].live_view.update(live_view_data)\<close>.\<close>

fun live_view_step :: "live_view_data list \<Rightarrow> station \<Rightarrow> (py_error + unit) \<times> station" where
  "live_view_step [] s = (Inr (), s)"
| "live_view_step (live_view_data # rest) s =
     (case map_of (data s) (lv_id live_view_data) of
        None \<Rightarrow> (Inl (KeyError (lv_id live_view_data)), s)
      | Some _ \<Rightarrow>
          live_view_step rest
            (s\<lparr>data := dict_apply (lv_id live_view_data)
                 (\<lambda>camera. live_view_update camera live_view_data) (data s)\<rparr>))"

definition id_list :: "(int \<times> SynoCamera) list \<Rightarrow> string" where
  "id_list d = join '','' (map str_int (dict_keys d))"

definition update :: "backend \<Rightarrow> station \<Rightarrow> (py_error + unit) \<times> station" where
  "update B s =
     (case dsm_get (camera_list B) list_request (s\<lparr>data := []\<rparr>) of
        (Inl e, s1) \<Rightarrow> (Inl e, s1)
      | (Inr cameras, s1) \<Rightarrow>
          (case motion_step B (dict_keys (list_step cameras (data s1)))
                  (s1\<lparr>data := list_step cameras (data s1)\<rparr>) of
             (Inl e, s2) \<Rightarrow> (Inl e, s2)
           | (Inr _, s2) \<Rightarrow>
               if data s2 = [] then (Inr (), s2)
               else
                 (case dsm_get (live_view_paths B) (live_view_request (id_list (data s2))) s2 of
                    (Inl e, s3) \<Rightarrow> (Inl e, s3)
                  | (Inr live_view_datas, s3) \<Rightarrow> live_view_step live_view_datas s3)))"

section \<open>Accessors\<close>

definition get_all_cameras :: "station \<Rightarrow> SynoCamera list" where
  "get_all_cameras s = map snd (data s)"

definition get_camera :: "station \<Rightarrow> int \<Rightarrow> py_error + SynoCamera" where
  "get_camera s camera_id =
     (case map_of (data s) camera_id of None \<Rightarrow> Inl (KeyError camera_id) | Some c \<Rightarrow> Inr c)"

definition is_motion_detection_enabled :: "station \<Rightarrow> int \<Rightarrow> py_error + bool option" where
  "is_motion_detection_enabled s camera_id =
     (case map_of (data s) camera_id of
        None \<Rightarrow> Inl (KeyError camera_id)
      | Some c \<Rightarrow> Inr (cam_is_motion_detection_enabled c))"

section \<open>Remote operations\<close>

definition get_info :: "backend \<Rightarrow> station \<Rightarrow> (py_error + raw_response) \<times> station" where
  "get_info B s =
     dsm_get (raw_reply B)
       \<lparr>req_api = INFO_API_KEY, req_method = ''GetInfo'', req_params = None,
        req_max_version = None\<rparr> s"

text \<open>\<open>profile\<close> is \<open>None\<close> when the caller leaves the default.\<close>

definition get_camera_image ::
  "const \<Rightarrow> backend \<Rightarrow> pyval \<Rightarrow> pyval option \<Rightarrow> station \<Rightarrow> (py_error + raw_response) \<times> station" where
  "get_camera_image K B camera_id profile s =
     dsm_get (raw_reply B)
       \<lparr>req_api = CAMERA_API_KEY, req_method = ''GetSnapshot'',
        req_params = Some [(''id'', camera_id), (''cameraId'', camera_id),
          (''profileType'',
             case profile of None \<Rightarrow> SNAPSHOT_PROFILE_BALANCED K | Some p \<Rightarrow> p)],
        req_max_version = None\<rparr> s"

definition enable_request :: "pyval \<Rightarrow> request" where
  "enable_request camera_id =
     \<lparr>req_api = CAMERA_API_KEY, req_method = ''Enable'',
      req_params = Some [(''idList'', camera_id)], req_max_version = None\<rparr>"

definition enable_camera :: "backend \<Rightarrow> pyval \<Rightarrow> station \<Rightarrow> (py_error + bool) \<times> station" where
  "enable_camera B camera_id s = dsm_get (success_flag B) (enable_request camera_id) s"

definition disable_request :: "pyval \<Rightarrow> request" where
  "disable_request camera_id =
     \<lparr>req_api = CAMERA_API_KEY, req_method = ''Disable'',
      req_params = Some [(''idList'', camera_id)], req_max_version = None\<rparr>"

definition disable_camera :: "backend \<Rightarrow> pyval \<Rightarrow> station \<Rightarrow> (py_error + bool) \<times> station" where
  "disable_camera B camera_id s = dsm_get (success_flag B) (disable_request camera_id) s"

definition capture_camera_image ::
  "backend \<Rightarrow> pyval \<Rightarrow> bool \<Rightarrow> station \<Rightarrow> (py_error + raw_response) \<times> station" where
  "capture_camera_image B camera_id save s =
     dsm_get (raw_reply B)
       \<lparr>req_api = SNAPSHOT_API_KEY, req_method = ''TakeSnapshot'',
        req_params = Some [(''camId'', camera_id), (''blSave'', PyInt (int_of_bool save))],
        req_max_version = None\<rparr> s"

definition download_snapshot ::
  "backend \<Rightarrow> pyval \<Rightarrow> pyval \<Rightarrow> station \<Rightarrow> (py_error + raw_response) \<times> station" where
  "download_snapshot B snapshot_id snapshot_size s =
     dsm_get (raw_reply B)
       \<lparr>req_api = SNAPSHOT_API_KEY, req_method = ''LoadSnapshot'',
        req_params = Some [(''id'', snapshot_id), (''imgSize'', snapshot_size)],
        req_max_version = None\<rparr> s"

definition enable_motion_detection ::
  "const \<Rightarrow> backend \<Rightarrow> pyval \<Rightarrow> station \<Rightarrow> (py_error + raw_response) \<times> station" where
  "enable_motion_detection K B camera_id s =
     dsm_get (raw_reply B)
       \<lparr>req_api = CAMERA_EVENT_API_KEY, req_method = ''MDParamSave'',
        req_params = Some [(''camId'', camera_id),
                           (''source'', MOTION_DETECTION_BY_SURVEILLANCE K)],
        req_max_version = None\<rparr> s"

definition disable_motion_detection ::
  "const \<Rightarrow> backend \<Rightarrow> pyval \<Rightarrow> station \<Rightarrow> (py_error + raw_response) \<times> station" where
  "disable_motion_detection K B camera_id s =
     dsm_get (raw_reply B)
       \<lparr>req_api = CAMERA_EVENT_API_KEY, req_method = ''MDParamSave'',
        req_params = Some [(''camId'', camera_id), (''source'', MOTION_DETECTION_DISABLED K)],
        req_max_version = None\<rparr> s"

definition get_home_mode_status :: "backend \<Rightarrow> station \<Rightarrow> (py_error + bool) \<times> station" where
  "get_home_mode_status B s =
     dsm_get (home_mode_on B)
       \<lparr>req_api = HOME_MODE_API_KEY, req_method = ''GetInfo'', req_params = None,
        req_max_version = None\<rparr> s"

definition home_mode_request :: "bool \<Rightarrow> request" where
  "home_mode_request state =
     \<lparr>req_api = HOME_MODE_API_KEY, req_method = ''Switch'',
      req_params = Some [(''on'', PyStr (lower (str_bool state)))], req_max_version = None\<rparr>"

definition set_home_mode :: "backend \<Rightarrow> bool \<Rightarrow> station \<Rightarrow> (py_error + bool) \<times> station" where
  "set_home_mode B state s = dsm_get (success_flag B) (home_mode_request state) s"

section \<open>Observing the requests of one call\<close>

text \<open>
  The requests issued between a state \<open>s\<close> and a later state \<open>s'\<close>, and those among
  a list of requests that are \<open>GetLiveViewPath\<close> calls.
\<close>

definition issued :: "station \<Rightarrow> station \<Rightarrow> request list" where
  "issued s s' = drop (length (dsm_log s)) (dsm_log s')"

definition live_view_calls :: "request list \<Rightarrow> request list" where
  "live_view_calls rqs =
     filter (\<lambda>rq. req_api rq = CAMERA_API_KEY \<and> req_method rq = ''GetLiveViewPath'') rqs"

section \<open>Concrete backends and states\<close>

definition camera1 :: camera_data where
  "camera1 = \<lparr>cd_id = 1, cd_attrs = [(''name'', ''Front door'')]\<rparr>"

definition camera2 :: camera_data where
  "camera2 = \<lparr>cd_id = 2, cd_attrs = [(''name'', ''Garage'')]\<rparr>"

definition camera9 :: camera_data where
  "camera9 = \<lparr>cd_id = 9, cd_attrs = [(''name'', ''Shed'')]\<rparr>"

definition live_view1 :: live_view_data where
  "live_view1 = \<lparr>lv_id = 1, lv_paths = [(''rtsp'', ''rtsp://nas/1'')]\<rparr>"

definition live_view2 :: live_view_data where
  "live_view2 = \<lparr>lv_id = 2, lv_paths = [(''rtsp'', ''rtsp://nas/2'')]\<rparr>"

definition live_view7 :: live_view_data where
  "live_view7 = \<lparr>lv_id = 7, lv_paths = [(''rtsp'', ''rtsp://nas/7'')]\<rparr>"

text \<open>A station before its first update, and one holding a camera of an earlier cycle.\<close>

definition station0 :: station where
  "station0 = \<lparr>data = [], dsm_log = []\<rparr>"

definition station_stale :: station where
  "station_stale = \<lparr>data = [(9, SynoCamera_init camera9)], dsm_log = []\<rparr>"

text \<open>A backend that answers every call, with two cameras.\<close>

definition backend_ok :: backend where
  "backend_ok =
     \<lparr>camera_list = (\<lambda>rq. Inr [camera1, camera2]),
      motion_enum = (\<lambda>rq. Inr \<lparr>md_enabled = True\<rparr>),
      live_view_paths = (\<lambda>rq. Inr [live_view1, live_view2]),
      success_flag = (\<lambda>rq. Inr True),
      home_mode_on = (\<lambda>rq. Inr False),
      raw_reply = (\<lambda>rq. Inr (RawResponse ''ok''))\<rparr>"

text \<open>The same backend answering \<open>GetLiveViewPath\<close> with no record.\<close>

definition backend_no_live_view :: backend where
  "backend_no_live_view = backend_ok\<lparr>live_view_paths := (\<lambda>rq. Inr [])\<rparr>"

text \<open>\<dots> with a record for a camera that is not in the list.\<close>

definition backend_stray_live_view :: backend where
  "backend_stray_live_view = backend_ok\<lparr>live_view_paths := (\<lambda>rq. Inr [live_view1, live_view7])\<rparr>"

text \<open>\<dots> with an empty camera list.\<close>

definition backend_empty :: backend where
  "backend_empty = backend_ok\<lparr>camera_list := (\<lambda>rq. Inr [])\<rparr>"

text \<open>Backends whose transport fails in the list call, in the second camera's
  \<open>MotionEnum\<close> call, and in the \<open>GetLiveViewPath\<close> call.\<close>

definition backend_list_down :: backend where
  "backend_list_down = backend_ok\<lparr>camera_list := (\<lambda>rq. Inl NetworkFailure)\<rparr>"

definition backend_motion_down :: backend where
  "backend_motion_down =
     backend_ok\<lparr>motion_enum :=
       (\<lambda>rq. if req_params rq = Some [(''camId'', PyInt 2)] then Inl AuthFailure
             else Inr \<lparr>md_enabled = True\<rparr>)\<rparr>"

definition backend_live_view_down :: backend where
  "backend_live_view_down = backend_ok\<lparr>live_view_paths := (\<lambda>rq. Inl MalformedJSON)\<rparr>"

text \<open>Sample values for the constants of module \<open>const\<close>.\<close>

definition sample_const :: const where
  "sample_const =
     \<lparr>MOTION_DETECTION_BY_SURVEILLANCE = PyInt 1, MOTION_DETECTION_DISABLED = PyInt (- 1),
      SNAPSHOT_PROFILE_BALANCED = PyInt 1\<rparr>"

section \<open>Properties of the dictionary operations and of the three loops\<close>

lemma dict_keys_apply: "dict_keys (dict_apply k f d) = dict_keys d"
  by (induction d) (auto simp: dict_keys_def)

lemma dict_keys_set:
  "dict_keys (dict_set k v d) = (if k \<in> set (dict_keys d) then dict_keys d else dict_keys d @ [k])"
  by (induction d) (force simp: dict_keys_def)+

lemma map_of_dict_apply:
  "map_of (dict_apply k f d) k' = (if k' = k then map_option f (map_of d k) else map_of d k')"
  by (induction d) auto

lemma map_of_dict_set:
  "map_of (dict_set k v d) k' = (if k' = k then Some v else map_of d k')"
  by (induction d) auto

lemma dict_keys_Nil_iff: "dict_keys d = [] \<longleftrightarrow> d = []"
  by (simp add: dict_keys_def)

lemma in_keys_map_of: "k \<in> set (dict_keys d) \<longleftrightarrow> map_of d k \<noteq> None"
  by (induction d) (auto simp: dict_keys_def)

lemma set_keys_list_step:
  "set (dict_keys (list_step cds d)) = set (dict_keys d) \<union> cd_id ` set cds"
  by (induction cds arbitrary: d) (auto simp: dict_keys_apply dict_keys_set)

lemma distinct_keys_list_step:
  "distinct (dict_keys d) \<Longrightarrow> distinct (dict_keys (list_step cds d))"
  by (induction cds arbitrary: d) (auto simp: dict_keys_apply dict_keys_set)

lemma list_step_Nil_iff: "list_step cds [] = [] \<longleftrightarrow> cds = []"
  using set_keys_list_step [of cds "[]"] 
  by (cases cds) (auto simp: dict_keys_def)

lemma motion_step_keys:
  "dict_keys (data (snd (motion_step B ks s))) = dict_keys (data s)"
  by (induction ks arbitrary: s)
     (auto simp: dsm_get_def dict_keys_apply split: sum.splits)

lemma live_view_step_keys:
  "dict_keys (data (snd (live_view_step lvs s))) = dict_keys (data s)"
  by (induction lvs arbitrary: s)
     (auto simp: dict_keys_apply split: option.splits)

lemma motion_step_append:
  "motion_step B (xs @ ys) s =
     (case motion_step B xs s of (Inl e, s') \<Rightarrow> (Inl e, s') | (Inr u, s') \<Rightarrow> motion_step B ys s')"
  by (induction xs arbitrary: s) (auto simp: dsm_get_def split: sum.splits)

lemma motion_step_ok:
  "\<forall>k\<in>set ks. \<exists>md. motion_enum B (motion_request k) = Inr md \<Longrightarrow>
   fst (motion_step B ks s) = Inr () \<and>
   dsm_log (snd (motion_step B ks s)) = dsm_log s @ map motion_request ks"
  by (induction ks arbitrary: s) (auto simp: dsm_get_def)

lemma motion_step_Inr:
  "fst (motion_step B ks s) = Inr u \<Longrightarrow>
   \<forall>k\<in>set ks. \<exists>md. motion_enum B (motion_request k) = Inr md"
  by (induction ks arbitrary: s) (auto simp: dsm_get_def split: sum.splits)

lemma motion_step_other:
  "k \<notin> set ks \<Longrightarrow> map_of (data (snd (motion_step B ks s))) k = map_of (data s) k"
  by (induction ks arbitrary: s) (auto simp: dsm_get_def map_of_dict_apply split: sum.splits)

lemma motion_step_cam_data:
  "map_option cam_data (map_of (data (snd (motion_step B ks s))) k) =
   map_option cam_data (map_of (data s) k)"
  by (induction ks arbitrary: s)
     (auto simp: dsm_get_def map_of_dict_apply update_motion_detection_def
        option.map_comp comp_def split: sum.splits)

lemma motion_step_live_view:
  "map_option live_view (map_of (data (snd (motion_step B ks s))) k) =
   map_option live_view (map_of (data s) k)"
  by (induction ks arbitrary: s)
     (auto simp: dsm_get_def map_of_dict_apply update_motion_detection_def
        option.map_comp comp_def split: sum.splits)

lemma motion_step_cong:
  "data s = data t \<Longrightarrow>
   fst (motion_step B ks s) = fst (motion_step B ks t) \<and>
   data (snd (motion_step B ks s)) = data (snd (motion_step B ks t))"
proof (induction ks arbitrary: s t)
  case Nil
  then show ?case by simp
next
  case (Cons k ks)
  show ?case
  proof (cases "motion_enum B (motion_request k)")
    case (Inl e)
    with Cons.prems show ?thesis by (simp add: dsm_get_def)
  next
    case (Inr md)
    let ?f = "\<lambda>camera. update_motion_detection camera md"
    let ?s = "s\<lparr>dsm_log := dsm_log s @ [motion_request k], data := dict_apply k ?f (data s)\<rparr>"
    let ?t = "t\<lparr>dsm_log := dsm_log t @ [motion_request k], data := dict_apply k ?f (data t)\<rparr>"
    have "data ?s = data ?t" using Cons.prems by simp
    from Cons.IH [OF this] Inr show ?thesis by (simp add: dsm_get_def)
  qed
qed

lemma live_view_step_log: "dsm_log (snd (live_view_step lvs s)) = dsm_log s"
  by (induction lvs arbitrary: s) (auto split: option.splits)

lemma live_view_step_other:
  "k \<notin> lv_id ` set lvs \<Longrightarrow> map_of (data (snd (live_view_step lvs s))) k = map_of (data s) k"
  by (induction lvs arbitrary: s) (auto simp: map_of_dict_apply split: option.splits)

lemma live_view_step_cam_data:
  "map_option cam_data (map_of (data (snd (live_view_step lvs s))) k) =
   map_option cam_data (map_of (data s) k)"
  by (induction lvs arbitrary: s)
     (auto simp: map_of_dict_apply live_view_update_def option.map_comp comp_def
        split: option.splits)

lemma live_view_step_cong:
  "data s = data t \<Longrightarrow>
   fst (live_view_step lvs s) = fst (live_view_step lvs t) \<and>
   data (snd (live_view_step lvs s)) = data (snd (live_view_step lvs t))"
proof (induction lvs arbitrary: s t)
  case Nil
  then show ?case by simp
next
  case (Cons lv lvs)
  show ?case
  proof (cases "map_of (data t) (lv_id lv)")
    case None
    with Cons.prems show ?thesis by simp
  next
    case (Some c)
    let ?f = "\<lambda>camera. live_view_update camera lv"
    have "data (s\<lparr>data := dict_apply (lv_id lv) ?f (data s)\<rparr>) =
          data (t\<lparr>data := dict_apply (lv_id lv) ?f (data t)\<rparr>)"
      using Cons.prems by simp
    from Cons.IH [OF this] Some Cons.prems show ?thesis by simp
  qed
qed

lemma live_view_step_populated:
  "fst (live_view_step lvs s) = Inr u \<Longrightarrow> k \<in> lv_id ` set lvs \<Longrightarrow>
   \<exists>c lv. map_of (data (snd (live_view_step lvs s))) k = Some c \<and>
          live_view c = Some lv \<and> lv_id lv = k"
proof (induction lvs arbitrary: s)
  case Nil
  then show ?case by simp
next
  case (Cons lv lvs)
  from Cons.prems(1) obtain c0 where c0: "map_of (data s) (lv_id lv) = Some c0"
    by (cases "map_of (data s) (lv_id lv)") auto
  let ?s = "s\<lparr>data := dict_apply (lv_id lv) (\<lambda>camera. live_view_update camera lv) (data s)\<rparr>"
  have step: "live_view_step (lv # lvs) s = live_view_step lvs ?s"
    using c0 by simp
  show ?case
  proof (cases "k \<in> lv_id ` set lvs")
    case True
    from Cons.prems(1) step have "fst (live_view_step lvs ?s) = Inr u" by simp
    from Cons.IH [OF this True] step show ?thesis by simp
  next
    case False
    with Cons.prems(2) have k: "k = lv_id lv" by auto
    have "map_of (data (snd (live_view_step lvs ?s))) k = map_of (data ?s) k"
      using False by (rule live_view_step_other)
    also have "\<dots> = Some (live_view_update c0 lv)"
      using c0 k by (simp add: map_of_dict_apply)
    finally show ?thesis using step k by (simp add: live_view_update_def)
  qed
qed

lemma live_view_step_result:
  "fst (live_view_step lvs s) =
     (case find (\<lambda>lv. lv_id lv \<notin> set (dict_keys (data s))) lvs of
        None \<Rightarrow> Inr () | Some lv \<Rightarrow> Inl (KeyError (lv_id lv)))"
proof (induction lvs arbitrary: s)
  case Nil
  then show ?case by simp
next
  case (Cons lv lvs)
  show ?case
  proof (cases "map_of (data s) (lv_id lv)")
    case None
    then have "lv_id lv \<notin> set (dict_keys (data s))" by (simp add: in_keys_map_of)
    with None show ?thesis by simp
  next
    case (Some c)
    then have "lv_id lv \<in> set (dict_keys (data s))" by (simp add: in_keys_map_of)
    with Some Cons.IH show ?thesis by (simp add: dict_keys_apply)
  qed
qed

lemma list_step_fresh:
  "\<forall>k c. map_of d k = Some c \<longrightarrow> motion_detection_enabled c = None \<and> live_view c = None \<Longrightarrow>
   map_of (list_step cds d) k = Some c \<Longrightarrow>
   motion_detection_enabled c = None \<and> live_view c = None"
proof (induction cds arbitrary: d)
  case Nil
  then show ?case by simp
next
  case (Cons cd cds)
  let ?d = "if cd_id cd \<in> set (dict_keys d)
        then dict_apply (cd_id cd) (\<lambda>camera. SynoCamera_update camera cd) d
        else dict_set (cd_id cd) (SynoCamera_init cd) d"
  have "\<forall>k c. map_of ?d k = Some c \<longrightarrow> motion_detection_enabled c = None \<and> live_view c = None"
    using Cons.prems(1)
    by (auto simp: map_of_dict_apply map_of_dict_set SynoCamera_update_def SynoCamera_init_def
          split: if_splits)
  from Cons.IH [OF this] Cons.prems(2) show ?case by simp
qed

lemma id_list_cong: "dict_keys d = dict_keys d' \<Longrightarrow> id_list d = id_list d'"
  by (simp add: id_list_def)

lemma motion_step_id_list: "id_list (data (snd (motion_step B ks s))) = id_list (data s)"
  by (rule id_list_cong) (rule motion_step_keys)

lemma motion_step_Nil_iff: "data (snd (motion_step B ks s)) = [] \<longleftrightarrow> data s = []"
  using motion_step_keys [of B ks s] by (metis dict_keys_Nil_iff)

lemma motion_step_log_prefix: "\<exists>rest. dsm_log (snd (motion_step B ks s)) = dsm_log s @ rest"
proof (induction ks arbitrary: s)
  case Nil
  then show ?case by simp
next
  case (Cons k ks)
  show ?case
  proof (cases "motion_enum B (motion_request k)")
    case (Inl e)
    then show ?thesis by (simp add: dsm_get_def)
  next
    case (Inr md)
    let ?s = "s\<lparr>dsm_log := dsm_log s @ [motion_request k],
                data := dict_apply k (\<lambda>camera. update_motion_detection camera md) (data s)\<rparr>"
    from Cons.IH [of ?s] obtain rest where
      "dsm_log (snd (motion_step B ks ?s)) = dsm_log ?s @ rest" by blast
    then have "dsm_log (snd (motion_step B (k # ks) s)) = dsm_log s @ (motion_request k # rest)"
      using Inr by (simp add: dsm_get_def)
    then show ?thesis by blast
  qed
qed

lemma update_list_fail:
  "camera_list B list_request = Inl e \<Longrightarrow>
   update B s = (Inl (Transport e), s\<lparr>dsm_log := dsm_log s @ [list_request], data := []\<rparr>)"
  by (simp add: update_def dsm_get_def)

lemma update_unfold:
  assumes "camera_list B list_request = Inr cds"
    and "motion_step B (dict_keys (list_step cds []))
           (s\<lparr>dsm_log := dsm_log s @ [list_request], data := list_step cds []\<rparr>) = (r2, s2)"
  shows "update B s =
     (case r2 of
        Inl e \<Rightarrow> (Inl e, s2)
      | Inr u \<Rightarrow>
          if cds = [] then (Inr (), s2)
          else (case live_view_paths B (live_view_request (id_list (list_step cds []))) of
                  Inl e \<Rightarrow> (Inl (Transport e),
                     s2\<lparr>dsm_log := dsm_log s2 @ [live_view_request (id_list (list_step cds []))]\<rparr>)
                | Inr lvs \<Rightarrow> live_view_step lvs
                     (s2\<lparr>dsm_log := dsm_log s2 @ [live_view_request (id_list (list_step cds []))]\<rparr>)))"
proof -
  let ?s1 = "s\<lparr>dsm_log := dsm_log s @ [list_request], data := list_step cds []\<rparr>"
  have d: "data s2 = [] \<longleftrightarrow> cds = []"
    using motion_step_Nil_iff [of B "dict_keys (list_step cds [])" ?s1] assms(2)
    by (simp add: list_step_Nil_iff)
  have i: "id_list (data s2) = id_list (list_step cds [])"
    using motion_step_id_list [of B "dict_keys (list_step cds [])" ?s1] assms(2) by simp
  show ?thesis
    using assms d i by (simp add: update_def dsm_get_def split: sum.splits)
qed

lemma update_keys:
  assumes "camera_list B list_request = Inr cds"
  shows "dict_keys (data (snd (update B s))) = dict_keys (list_step cds [])"
proof -
  let ?s1 = "s\<lparr>dsm_log := dsm_log s @ [list_request], data := list_step cds []\<rparr>"
  obtain r2 s2 where m: "motion_step B (dict_keys (list_step cds [])) ?s1 = (r2, s2)"
    by (cases "motion_step B (dict_keys (list_step cds [])) ?s1")
  have k: "dict_keys (data s2) = dict_keys (list_step cds [])"
    using motion_step_keys [of B "dict_keys (list_step cds [])" ?s1] m by simp
  show ?thesis
    unfolding update_unfold [OF assms m]
    using k by (simp add: live_view_step_keys split: sum.splits)
qed

lemma update_cam_data:
  assumes "camera_list B list_request = Inr cds"
  shows "map_option cam_data (map_of (data (snd (update B s))) k) =
         map_option cam_data (map_of (list_step cds []) k)"
proof -
  let ?s1 = "s\<lparr>dsm_log := dsm_log s @ [list_request], data := list_step cds []\<rparr>"
  obtain r2 s2 where m: "motion_step B (dict_keys (list_step cds [])) ?s1 = (r2, s2)"
    by (cases "motion_step B (dict_keys (list_step cds [])) ?s1")
  have k: "map_option cam_data (map_of (data s2) k) =
           map_option cam_data (map_of (list_step cds []) k)"
    using motion_step_cam_data [of B "dict_keys (list_step cds [])" ?s1 k] m by simp
  show ?thesis
    unfolding update_unfold [OF assms m]
    using k by (auto simp: live_view_step_cam_data split: sum.splits)
qed

lemma update_log_prefix: "\<exists>rest. dsm_log (snd (update B s)) = dsm_log s @ list_request # rest"
proof (cases "camera_list B list_request")
  case (Inl e)
  then show ?thesis by (simp add: update_list_fail)
next
  case (Inr cds)
  let ?s1 = "s\<lparr>dsm_log := dsm_log s @ [list_request], data := list_step cds []\<rparr>"
  obtain r2 s2 where m: "motion_step B (dict_keys (list_step cds [])) ?s1 = (r2, s2)"
    by (cases "motion_step B (dict_keys (list_step cds [])) ?s1")
  obtain rest where "dsm_log s2 = dsm_log s @ list_request # rest"
    using motion_step_log_prefix [of B "dict_keys (list_step cds [])" ?s1] m by auto
  then show ?thesis
    unfolding update_unfold [OF Inr m]
    by (simp add: live_view_step_log split: sum.splits)
qed

lemma update_indep:
  "fst (update B s) = fst (update B t) \<and> data (snd (update B s)) = data (snd (update B t))"
proof (cases "camera_list B list_request")
  case (Inl e)
  then show ?thesis by (simp add: update_list_fail)
next
  case (Inr cds)
  let ?ks = "dict_keys (list_step cds [])"
  let ?s1 = "s\<lparr>dsm_log := dsm_log s @ [list_request], data := list_step cds []\<rparr>"
  let ?t1 = "t\<lparr>dsm_log := dsm_log t @ [list_request], data := list_step cds []\<rparr>"
  let ?rq = "live_view_request (id_list (list_step cds []))"
  obtain r2 s2 where ms: "motion_step B ?ks ?s1 = (r2, s2)"
    by (cases "motion_step B ?ks ?s1")
  obtain r2' t2 where mt: "motion_step B ?ks ?t1 = (r2', t2)"
    by (cases "motion_step B ?ks ?t1")
  have "data ?s1 = data ?t1" by simp
  from motion_step_cong [OF this, of B ?ks] ms mt
  have r: "r2' = r2" and d: "data s2 = data t2" by simp_all
  have "data (s2\<lparr>dsm_log := dsm_log s2 @ [?rq]\<rparr>) = data (t2\<lparr>dsm_log := dsm_log t2 @ [?rq]\<rparr>)"
    using d by simp
  note lv = live_view_step_cong [OF this]
  show ?thesis
    unfolding update_unfold [OF Inr ms] update_unfold [OF Inr mt] r
    using d lv by (simp split: sum.splits)
qed

lemma issued_dsm_get: "issued s (snd (dsm_get v rq s)) = [rq]"
  by (simp add: issued_def dsm_get_def)

lemma data_dsm_get: "data (snd (dsm_get v rq s)) = data s"
  by (simp add: dsm_get_def)

lemma fst_dsm_get:
  "fst (dsm_get v rq s) = (case v rq of Inl e \<Rightarrow> Inl (Transport e) | Inr x \<Rightarrow> Inr x)"
  by (simp add: dsm_get_def)

lemma motion_step_log_ok:
  assumes "fst (motion_step B ks s) = Inr u"
  shows "dsm_log (snd (motion_step B ks s)) = dsm_log s @ map motion_request ks"
  using motion_step_ok [OF motion_step_Inr [OF assms]] by simp

lemma set_keys_list_step_Nil: "set (dict_keys (list_step cds [])) = cd_id ` set cds"
  using set_keys_list_step [of cds "[]"] by (simp add: dict_keys_def)

lemma live_view_calls_update_log:
  "live_view_calls (list_request # map motion_request ks @ [live_view_request ids]) =
     [live_view_request ids]"
  by (induction ks)
     (simp_all add: live_view_calls_def list_request_def motion_request_def
        live_view_request_def CAMERA_API_KEY_def CAMERA_EVENT_API_KEY_def)

lemma list_step_Nil_fresh:
  "map_of (list_step cds []) k = Some c \<Longrightarrow>
   motion_detection_enabled c = None \<and> live_view c = None"
  by (rule list_step_fresh [of "[]"]) simp_all

lemma motion_step_Inl:
  "fst (motion_step B ks s) = Inl err \<Longrightarrow> \<exists>e. err = Transport e"
  by (induction ks arbitrary: s) (auto simp: dsm_get_def split: sum.splits)

lemma update_motion_fail:
  assumes cl: "camera_list B list_request = Inr cds"
    and ks: "dict_keys (list_step cds []) = pre @ k # post"
    and ok: "\<forall>k'\<in>set pre. \<exists>md. motion_enum B (motion_request k') = Inr md"
    and fail: "motion_enum B (motion_request k) = Inl e"
  shows "fst (update B s) = Inl (Transport e)"
    and "issued s (snd (update B s)) = list_request # map motion_request (pre @ [k])"
    and "map_of (data (snd (update B s))) j = Some c \<Longrightarrow> live_view c = None"
    and "j \<in> set (k # post) \<Longrightarrow> map_of (data (snd (update B s))) j = Some c \<Longrightarrow>
         motion_detection_enabled c = None"
proof -
  let ?reg = "list_step cds []"
  let ?s1 = "s\<lparr>dsm_log := dsm_log s @ [list_request], data := ?reg\<rparr>"
  from motion_step_ok [OF ok, of ?s1]
  have pre_ok: "fst (motion_step B pre ?s1) = Inr ()"
    and pre_log: "dsm_log (snd (motion_step B pre ?s1)) = dsm_log ?s1 @ map motion_request pre"
    by simp_all
  define sp where "sp = snd (motion_step B pre ?s1)"
  have mp: "motion_step B pre ?s1 = (Inr (), sp)"
    using pre_ok by (simp add: sp_def prod_eq_iff)
  let ?s2 = "sp\<lparr>dsm_log := dsm_log sp @ [motion_request k]\<rparr>"
  have m: "motion_step B (dict_keys ?reg) ?s1 = (Inl (Transport e), ?s2)"
    unfolding ks motion_step_append mp by (simp add: dsm_get_def fail)
  have u: "update B s = (Inl (Transport e), ?s2)"
    using update_unfold [OF cl m] by simp
  show "fst (update B s) = Inl (Transport e)" by (simp add: u)
  show "issued s (snd (update B s)) = list_request # map motion_request (pre @ [k])"
    using pre_log by (simp add: u issued_def sp_def)
  have lvw: "map_option live_view (map_of (data sp) j) = map_option live_view (map_of ?reg j)"
    using motion_step_live_view [of B pre ?s1 j] by (simp add: sp_def)
  show "live_view c = None" if "map_of (data (snd (update B s))) j = Some c"
  proof -
    from that have "map_of (data sp) j = Some c" by (simp add: u)
    with lvw obtain c' where "map_of ?reg j = Some c'" and "live_view c' = live_view c"
      by (cases "map_of ?reg j") auto
    with list_step_Nil_fresh [of cds j c'] show ?thesis by simp
  qed
  show "motion_detection_enabled c = None"
    if j: "j \<in> set (k # post)" and c: "map_of (data (snd (update B s))) j = Some c"
  proof -
    have "distinct (dict_keys ?reg)"
      by (rule distinct_keys_list_step) (simp add: dict_keys_def)
    with ks j have "j \<notin> set pre" by auto
    then have "map_of (data sp) j = map_of ?reg j"
      using motion_step_other [of j pre B ?s1] by (simp add: sp_def)
    with c have "map_of ?reg j = Some c" by (simp add: u)
    then show ?thesis using list_step_Nil_fresh by blast
  qed
qed

lemma update_live_view_fail:
  assumes cl: "camera_list B list_request = Inr cds"
    and ne: "cds \<noteq> []"
    and ok: "\<forall>k\<in>set (dict_keys (list_step cds [])). \<exists>md. motion_enum B (motion_request k) = Inr md"
    and fail: "live_view_paths B (live_view_request (id_list (list_step cds []))) = Inl e"
  shows "fst (update B s) = Inl (Transport e)"
    and "issued s (snd (update B s)) =
           list_request # map motion_request (dict_keys (list_step cds [])) @
             [live_view_request (id_list (list_step cds []))]"
    and "map_of (data (snd (update B s))) j = Some c \<Longrightarrow> live_view c = None"
proof -
  let ?reg = "list_step cds []"
  let ?ks = "dict_keys ?reg"
  let ?s1 = "s\<lparr>dsm_log := dsm_log s @ [list_request], data := ?reg\<rparr>"
  let ?rq = "live_view_request (id_list ?reg)"
  from motion_step_ok [OF ok, of ?s1]
  have m_ok: "fst (motion_step B ?ks ?s1) = Inr ()"
    and m_log: "dsm_log (snd (motion_step B ?ks ?s1)) = dsm_log ?s1 @ map motion_request ?ks"
    by simp_all
  define s2 where "s2 = snd (motion_step B ?ks ?s1)"
  have m: "motion_step B ?ks ?s1 = (Inr (), s2)"
    using m_ok by (simp add: s2_def prod_eq_iff)
  have u: "update B s = (Inl (Transport e), s2\<lparr>dsm_log := dsm_log s2 @ [?rq]\<rparr>)"
    using update_unfold [OF cl m] ne fail by simp
  show "fst (update B s) = Inl (Transport e)" by (simp add: u)
  show "issued s (snd (update B s)) = list_request # map motion_request ?ks @ [?rq]"
    using m_log by (simp add: u issued_def s2_def)
  have lvw: "map_option live_view (map_of (data s2) j) = map_option live_view (map_of ?reg j)"
    using motion_step_live_view [of B ?ks ?s1 j] by (simp add: s2_def)
  show "live_view c = None" if "map_of (data (snd (update B s))) j = Some c"
  proof -
    from that have "map_of (data s2) j = Some c" by (simp add: u)
    with lvw obtain c' where "map_of ?reg j = Some c'" and "live_view c' = live_view c"
      by (cases "map_of ?reg j") auto
    with list_step_Nil_fresh [of cds j c'] show ?thesis by simp
  qed
qed

lemma update_live_view_result:
  assumes cl: "camera_list B list_request = Inr cds"
    and ne: "cds \<noteq> []"
    and ok: "\<forall>k\<in>set (dict_keys (list_step cds [])). \<exists>md. motion_enum B (motion_request k) = Inr md"
    and lv: "live_view_paths B (live_view_request (id_list (list_step cds []))) = Inr lvs"
  shows "fst (update B s) =
     (case find (\<lambda>lv. lv_id lv \<notin> set (dict_keys (list_step cds []))) lvs of
        None \<Rightarrow> Inr () | Some lv \<Rightarrow> Inl (KeyError (lv_id lv)))"
proof -
  let ?reg = "list_step cds []"
  let ?ks = "dict_keys ?reg"
  let ?s1 = "s\<lparr>dsm_log := dsm_log s @ [list_request], data := ?reg\<rparr>"
  let ?rq = "live_view_request (id_list ?reg)"
  from motion_step_ok [OF ok, of ?s1]
  have m_ok: "fst (motion_step B ?ks ?s1) = Inr ()" by simp
  define s2 where "s2 = snd (motion_step B ?ks ?s1)"
  have m: "motion_step B ?ks ?s1 = (Inr (), s2)"
    using m_ok by (simp add: s2_def prod_eq_iff)
  have k2: "dict_keys (data s2) = ?ks"
    using motion_step_keys [of B ?ks ?s1] by (simp add: s2_def)
  have u: "update B s = live_view_step lvs (s2\<lparr>dsm_log := dsm_log s2 @ [?rq]\<rparr>)"
    using update_unfold [OF cl m] ne lv by simp
  show ?thesis
    unfolding u live_view_step_result by (simp add: k2)
qed

lemma update_key_error_only_from_live_view:
  assumes "fst (update B s) = Inl (KeyError k)"
  shows "\<exists>cds lvs. camera_list B list_request = Inr cds \<and>
           live_view_paths B (live_view_request (id_list (list_step cds []))) = Inr lvs \<and>
           k \<in> lv_id ` set lvs \<and> k \<notin> set (dict_keys (list_step cds []))"
proof (cases "camera_list B list_request")
  case (Inl e)
  with assms show ?thesis by (simp add: update_list_fail)
next
  case (Inr cds)
  let ?reg = "list_step cds []"
  let ?ks = "dict_keys ?reg"
  let ?s1 = "s\<lparr>dsm_log := dsm_log s @ [list_request], data := ?reg\<rparr>"
  let ?rq = "live_view_request (id_list ?reg)"
  obtain r2 s2 where m: "motion_step B ?ks ?s1 = (r2, s2)"
    by (cases "motion_step B ?ks ?s1")
  note u = update_unfold [OF Inr m]
  have r2: "r2 = Inr ()"
  proof (cases r2)
    case (Inl err)
    with motion_step_Inl [of B ?ks ?s1 err] m obtain e where "err = Transport e" by auto
    with Inl u assms show ?thesis by simp
  qed simp
  from u r2 assms have ne: "cds \<noteq> []" by auto
  from u r2 ne assms obtain lvs where lv: "live_view_paths B ?rq = Inr lvs"
    by (cases "live_view_paths B ?rq") simp_all
  let ?s3 = "s2\<lparr>dsm_log := dsm_log s2 @ [?rq]\<rparr>"
  from u r2 ne lv assms have "fst (live_view_step lvs ?s3) = Inl (KeyError k)" by simp
  moreover have "dict_keys (data ?s3) = ?ks"
    using motion_step_keys [of B ?ks ?s1] m by simp
  ultimately obtain lv' where
    "find (\<lambda>lv. lv_id lv \<notin> set ?ks) lvs = Some lv'" and "lv_id lv' = k"
    unfolding live_view_step_result
    by (cases "find (\<lambda>lv. lv_id lv \<notin> set ?ks) lvs") simp_all
  then have "k \<in> lv_id ` set lvs \<and> k \<notin> set ?ks"
    by (auto simp: find_Some_iff)
  with Inr lv show ?thesis by blast
qed

lemma keys_camera1_camera2: "dict_keys (list_step [camera1, camera2] []) = [1, 2]"
  by code_simp

lemma id_list_camera1_camera2: "id_list (list_step [camera1, camera2] []) = ''1,2''"
  by code_simp

lemma lower_str_bool: "lower (str_bool True) = ''true''" "lower (str_bool False) = ''false''"
  by code_simp+

section \<open>The update cycle\<close>

text \<open>
  C1 (as amended). Suppose \<open>update\<close> returns normally (no failure of the transport and
  no key-not-found error) and the list call answered with a non-empty \<open>cameras\<close>
  array. Then every camera id of the list answer is a key of the registry; the
  requests issued are the list request, one \<open>MotionEnum\<close> request per
  registry key, and exactly one \<open>GetLiveViewPath\<close> request, whose \<open>idList\<close> is the
  comma-joined list of all registry keys; and the entry of a listed camera has its
  live-view data populated whenever the \<open>GetLiveViewPath\<close> answer holds a record with
  that camera's id.
\<close>

theorem update_populates_registry:
  assumes ok: "fst (update B s) = Inr ()"
    and cl: "camera_list B list_request = Inr cds"
    and ne: "cds \<noteq> []"
  shows "(\<forall>cd\<in>set cds. cd_id cd \<in> set (dict_keys (data (snd (update B s))))) \<and>
    issued s (snd (update B s)) =
      list_request # map motion_request (dict_keys (data (snd (update B s)))) @
        [live_view_request (id_list (data (snd (update B s))))] \<and>
    live_view_calls (issued s (snd (update B s))) =
      [live_view_request (id_list (data (snd (update B s))))] \<and>
    (\<forall>lvs. live_view_paths B (live_view_request (id_list (data (snd (update B s))))) = Inr lvs \<longrightarrow>
       (\<forall>cd\<in>set cds. cd_id cd \<in> lv_id ` set lvs \<longrightarrow>
          (\<exists>c lv. map_of (data (snd (update B s))) (cd_id cd) = Some c \<and>
                  live_view c = Some lv \<and> lv_id lv = cd_id cd)))"
proof -
  let ?reg = "list_step cds []"
  let ?ks = "dict_keys ?reg"
  let ?s1 = "s\<lparr>dsm_log := dsm_log s @ [list_request], data := ?reg\<rparr>"
  let ?rq = "live_view_request (id_list ?reg)"
  obtain r2 s2 where m: "motion_step B ?ks ?s1 = (r2, s2)"
    by (cases "motion_step B ?ks ?s1")
  note u = update_unfold [OF cl m]
  from ok u have r2: "r2 = Inr ()"
    by (cases r2) simp_all
  from ok u r2 ne obtain lvs where lv: "live_view_paths B ?rq = Inr lvs"
    by (cases "live_view_paths B ?rq") simp_all
  let ?s3 = "s2\<lparr>dsm_log := dsm_log s2 @ [?rq]\<rparr>"
  from u r2 ne lv have st: "update B s = live_view_step lvs ?s3" by simp
  have keys: "dict_keys (data (snd (update B s))) = ?ks"
    by (rule update_keys [OF cl])
  then have ids: "id_list (data (snd (update B s))) = id_list ?reg"
    by (rule id_list_cong)
  have "dsm_log s2 = dsm_log ?s1 @ map motion_request ?ks"
    using motion_step_log_ok [of B ?ks ?s1 "()"] m r2 by simp
  then have log: "dsm_log (snd (update B s)) =
      dsm_log s @ list_request # map motion_request ?ks @ [?rq]"
    by (simp add: st live_view_step_log)
  have c1: "\<forall>cd\<in>set cds. cd_id cd \<in> set (dict_keys (data (snd (update B s))))"
    by (simp add: keys set_keys_list_step_Nil)
  have c2: "issued s (snd (update B s)) =
      list_request # map motion_request (dict_keys (data (snd (update B s)))) @
        [live_view_request (id_list (data (snd (update B s))))]"
    by (simp add: issued_def log keys ids)
  have c3: "live_view_calls (issued s (snd (update B s))) =
      [live_view_request (id_list (data (snd (update B s))))]"
    unfolding c2 by (rule live_view_calls_update_log)
  have c4: "\<exists>c lv. map_of (data (snd (update B s))) k = Some c \<and>
                  live_view c = Some lv \<and> lv_id lv = k"
    if "k \<in> lv_id ` set lvs" for k
  proof -
    from ok st have "fst (live_view_step lvs ?s3) = Inr ()" by simp
    from live_view_step_populated [OF this that] st show ?thesis by simp
  qed
  from c1 c2 c3 c4 lv show ?thesis by (simp add: ids)
qed

theorem update_populates_registry_witness:
  "fst (update backend_ok station_stale) = Inr () \<and>
   data (snd (update backend_ok station_stale)) =
     [(1, \<lparr>cam_data = camera1, motion_detection_enabled = Some True,
           live_view = Some live_view1\<rparr>),
      (2, \<lparr>cam_data = camera2, motion_detection_enabled = Some True,
           live_view = Some live_view2\<rparr>)] \<and>
   live_view_calls (issued station_stale (snd (update backend_ok station_stale))) =
     [live_view_request ''1,2'']"
proof -
  have d: "update backend_ok station_stale =
    (Inr (), \<lparr>data = [(1, \<lparr>cam_data = camera1, motion_detection_enabled = Some True,
           live_view = Some live_view1\<rparr>),
      (2, \<lparr>cam_data = camera2, motion_detection_enabled = Some True,
           live_view = Some live_view2\<rparr>)],
      dsm_log = [list_request, motion_request 1, motion_request 2, live_view_request ''1,2'']\<rparr>)"
    by code_simp
  have ok: "fst (update backend_ok station_stale) = Inr ()" by (simp add: d)
  have cl: "camera_list backend_ok list_request = Inr [camera1, camera2]"
    by (simp add: backend_ok_def)
  have i: "id_list (data (snd (update backend_ok station_stale))) = ''1,2''"
    unfolding d by code_simp
  have ne: "[camera1, camera2] \<noteq> []" by simp
  note calls = update_populates_registry [OF ok cl ne, THEN conjunct2, THEN conjunct2, THEN conjunct1]
  from calls i d show ?thesis by simp
qed

text \<open>
  As stated without the condition on the \<open>GetLiveViewPath\<close> answer, C1 fails: against a
  backend that lists two cameras and answers \<open>GetLiveViewPath\<close> with no record,
  \<open>update\<close> returns normally and camera 1 is in the registry without live-view data.
\<close>

theorem update_live_view_unpopulated:
  "camera_list backend_no_live_view list_request = Inr [camera1, camera2] \<and>
   cd_id camera1 = 1 \<and>
   fst (update backend_no_live_view station0) = Inr () \<and>
   map_of (data (snd (update backend_no_live_view station0))) 1 =
     Some \<lparr>cam_data = camera1, motion_detection_enabled = Some True, live_view = None\<rparr>"
  by code_simp

text \<open>
  C2. When the list call answers with an empty \<open>cameras\<close> array, \<open>update\<close> returns
  normally with an empty registry; the list request is the only request it issues, so
  no \<open>GetLiveViewPath\<close> request is made. This holds from every prior state.
\<close>

theorem update_empty_camera_list:
  assumes "camera_list B list_request = Inr []"
  shows "fst (update B s) = Inr () \<and> data (snd (update B s)) = [] \<and>
         issued s (snd (update B s)) = [list_request] \<and>
         live_view_calls (issued s (snd (update B s))) = []"
  using assms
  by (simp add: update_def dsm_get_def dict_keys_def issued_def live_view_calls_def
        list_request_def)

theorem update_empty_camera_list_witness:
  "fst (update backend_empty station_stale) = Inr () \<and>
   data (snd (update backend_empty station_stale)) = [] \<and>
   issued station_stale (snd (update backend_empty station_stale)) = [list_request] \<and>
   live_view_calls (issued station_stale (snd (update backend_empty station_stale))) = []"
proof -
  have "camera_list backend_empty list_request = Inr []"
    by (simp add: backend_empty_def)
  then show ?thesis by (rule update_empty_camera_list)
qed

text \<open>
  C3. A failure of the transport in any of the three calls of \<open>update\<close> is raised to
  the caller as it is, and nothing is rolled back. If the list call fails, the registry
  is the cleared one. If the first failing call is the \<open>MotionEnum\<close> call of camera
  \<open>k\<close>, or the \<open>GetLiveViewPath\<close> call, the registry holds exactly the entries the list
  step created, with their list data; none of them has live-view data, and in the
  first case camera \<open>k\<close> and the cameras after it have no motion data.
\<close>

theorem update_failure_propagates:
  "(camera_list B list_request = Inl e \<longrightarrow>
      fst (update B s) = Inl (Transport e) \<and> data (snd (update B s)) = []) \<and>
   (\<forall>cds. camera_list B list_request = Inr cds \<longrightarrow>
      (\<forall>pre k post.
         dict_keys (list_step cds []) = pre @ k # post \<longrightarrow>
         (\<forall>k'\<in>set pre. \<exists>md. motion_enum B (motion_request k') = Inr md) \<longrightarrow>
         motion_enum B (motion_request k) = Inl e \<longrightarrow>
           fst (update B s) = Inl (Transport e) \<and>
           dict_keys (data (snd (update B s))) = dict_keys (list_step cds []) \<and>
           (\<forall>j. map_option cam_data (map_of (data (snd (update B s))) j) =
                map_option cam_data (map_of (list_step cds []) j)) \<and>
           (\<forall>j c. map_of (data (snd (update B s))) j = Some c \<longrightarrow>
                live_view c = None \<and>
                (j \<in> set (k # post) \<longrightarrow> motion_detection_enabled c = None))) \<and>
      (cds \<noteq> [] \<longrightarrow>
       (\<forall>k\<in>set (dict_keys (list_step cds [])). \<exists>md. motion_enum B (motion_request k) = Inr md) \<longrightarrow>
       live_view_paths B (live_view_request (id_list (list_step cds []))) = Inl e \<longrightarrow>
           fst (update B s) = Inl (Transport e) \<and>
           dict_keys (data (snd (update B s))) = dict_keys (list_step cds []) \<and>
           (\<forall>j. map_option cam_data (map_of (data (snd (update B s))) j) =
                map_option cam_data (map_of (list_step cds []) j)) \<and>
           (\<forall>j c. map_of (data (snd (update B s))) j = Some c \<longrightarrow> live_view c = None)))"
proof (intro conjI allI impI)
  assume "camera_list B list_request = Inl e"
  then show "fst (update B s) = Inl (Transport e)" "data (snd (update B s)) = []"
    by (simp_all add: update_list_fail)
next
  fix cds pre k post j c
  assume cl: "camera_list B list_request = Inr cds"
    and ks: "dict_keys (list_step cds []) = pre @ k # post"
    and ok: "\<forall>k'\<in>set pre. \<exists>md. motion_enum B (motion_request k') = Inr md"
    and fail: "motion_enum B (motion_request k) = Inl e"
  show "fst (update B s) = Inl (Transport e)"
    by (rule update_motion_fail(1) [OF cl ks ok fail])
  show "dict_keys (data (snd (update B s))) = dict_keys (list_step cds [])"
    by (rule update_keys [OF cl])
  show "map_option cam_data (map_of (data (snd (update B s))) j) =
        map_option cam_data (map_of (list_step cds []) j)"
    by (rule update_cam_data [OF cl])
  assume c: "map_of (data (snd (update B s))) j = Some c"
  show "live_view c = None"
    by (rule update_motion_fail(3) [OF cl ks ok fail c])
  assume "j \<in> set (k # post)"
  then show "motion_detection_enabled c = None"
    using c by (rule update_motion_fail(4) [OF cl ks ok fail])
next
  fix cds j c
  assume cl: "camera_list B list_request = Inr cds"
    and ne: "cds \<noteq> []"
    and ok: "\<forall>k\<in>set (dict_keys (list_step cds [])). \<exists>md. motion_enum B (motion_request k) = Inr md"
    and fail: "live_view_paths B (live_view_request (id_list (list_step cds []))) = Inl e"
  show "fst (update B s) = Inl (Transport e)"
    by (rule update_live_view_fail(1) [OF cl ne ok fail])
  show "dict_keys (data (snd (update B s))) = dict_keys (list_step cds [])"
    by (rule update_keys [OF cl])
  show "map_option cam_data (map_of (data (snd (update B s))) j) =
        map_option cam_data (map_of (list_step cds []) j)"
    by (rule update_cam_data [OF cl])
  assume "map_of (data (snd (update B s))) j = Some c"
  then show "live_view c = None"
    by (rule update_live_view_fail(3) [OF cl ne ok fail])
qed

theorem update_failure_propagates_witness:
  "fst (update backend_list_down station_stale) = Inl (Transport NetworkFailure) \<and>
   data (snd (update backend_list_down station_stale)) = [] \<and>
   fst (update backend_motion_down station_stale) = Inl (Transport AuthFailure) \<and>
   dict_keys (data (snd (update backend_motion_down station_stale))) = [1, 2] \<and>
   fst (update backend_live_view_down station_stale) = Inl (Transport MalformedJSON) \<and>
   dict_keys (data (snd (update backend_live_view_down station_stale))) = [1, 2]"
proof -
  have "camera_list backend_list_down list_request = Inl NetworkFailure"
    by (simp add: backend_list_down_def)
  note w1 = update_failure_propagates
    [of backend_list_down NetworkFailure station_stale, THEN conjunct1, THEN mp, OF this]
  have cl2: "camera_list backend_motion_down list_request = Inr [camera1, camera2]"
    by (simp add: backend_motion_down_def backend_ok_def)
  have ks2: "dict_keys (list_step [camera1, camera2] []) = [1] @ 2 # []"
    unfolding keys_camera1_camera2 by simp
  have ok2: "\<forall>k'\<in>set [1]. \<exists>md. motion_enum backend_motion_down (motion_request k') = Inr md"
    by (simp add: backend_motion_down_def motion_request_def)
  have fail2: "motion_enum backend_motion_down (motion_request 2) = Inl AuthFailure"
    by (simp add: backend_motion_down_def motion_request_def)
  note w2 = update_failure_propagates
    [of backend_motion_down AuthFailure station_stale, THEN conjunct2, THEN spec, THEN mp,
     OF cl2, THEN conjunct1, THEN spec, THEN spec, THEN spec, THEN mp, THEN mp, THEN mp,
     OF ks2 ok2 fail2]
  have cl3: "camera_list backend_live_view_down list_request = Inr [camera1, camera2]"
    by (simp add: backend_live_view_down_def backend_ok_def)
  have ne3: "[camera1, camera2] \<noteq> []" by simp
  have ok3: "\<forall>k\<in>set (dict_keys (list_step [camera1, camera2] [])).
               \<exists>md. motion_enum backend_live_view_down (motion_request k) = Inr md"
    by (simp add: backend_live_view_down_def backend_ok_def)
  have fail3: "live_view_paths backend_live_view_down
                 (live_view_request (id_list (list_step [camera1, camera2] []))) =
               Inl MalformedJSON"
    by (simp add: backend_live_view_down_def)
  note w3 = update_failure_propagates
    [of backend_live_view_down MalformedJSON station_stale, THEN conjunct2, THEN spec, THEN mp,
     OF cl3, THEN conjunct2, THEN mp, THEN mp, THEN mp, OF ne3 ok3 fail3]
  from w1 w2 [THEN conjunct1] w2 [THEN conjunct2, THEN conjunct1, unfolded keys_camera1_camera2]
    w3 [THEN conjunct1] w3 [THEN conjunct2, THEN conjunct1, unfolded keys_camera1_camera2]
  show ?thesis by simp
qed

text \<open>
  C4. \<open>update\<close> clears the registry before it processes the list answer: its outcome
  and the registry it leaves do not depend on the registry it started from, the
  first request it issues is the list request, with \<open>max_version\<close> 7, and afterwards the
  registry's keys are exactly the ids of the list answer (none if the list call
  failed). So a camera id that was a key before the call and is absent from the new
  list answer is not a key after the call.
\<close>

theorem update_clears_registry:
  "(case camera_list B list_request of
      Inl e \<Rightarrow> data (snd (update B s)) = []
    | Inr cds \<Rightarrow> set (dict_keys (data (snd (update B s)))) = cd_id ` set cds) \<and>
   (\<forall>cds k. camera_list B list_request = Inr cds \<longrightarrow> k \<in> set (dict_keys (data s)) \<longrightarrow>
      k \<notin> cd_id ` set cds \<longrightarrow> k \<notin> set (dict_keys (data (snd (update B s))))) \<and>
   req_max_version list_request = Some 7 \<and>
   (\<exists>rest. issued s (snd (update B s)) = list_request # rest) \<and>
   fst (update B (s\<lparr>data := d\<rparr>)) = fst (update B s) \<and>
   data (snd (update B (s\<lparr>data := d\<rparr>))) = data (snd (update B s))"
proof -
  have keys: "set (dict_keys (data (snd (update B s)))) = cd_id ` set cds"
    if "camera_list B list_request = Inr cds" for cds
    by (simp add: update_keys [OF that] set_keys_list_step_Nil)
  have c1: "case camera_list B list_request of
      Inl e \<Rightarrow> data (snd (update B s)) = []
    | Inr cds \<Rightarrow> set (dict_keys (data (snd (update B s)))) = cd_id ` set cds"
    by (cases "camera_list B list_request") (simp_all add: update_list_fail keys)
  have c2: "\<forall>cds k. camera_list B list_request = Inr cds \<longrightarrow> k \<in> set (dict_keys (data s)) \<longrightarrow>
      k \<notin> cd_id ` set cds \<longrightarrow> k \<notin> set (dict_keys (data (snd (update B s))))"
    using keys by blast
  have c3: "req_max_version list_request = Some 7"
    by (simp add: list_request_def)
  obtain rest where "dsm_log (snd (update B s)) = dsm_log s @ list_request # rest"
    using update_log_prefix by blast
  then have c4: "\<exists>rest. issued s (snd (update B s)) = list_request # rest"
    by (simp add: issued_def)
  from c1 c2 c3 c4 update_indep [of B "s\<lparr>data := d\<rparr>" s] show ?thesis by blast
qed

theorem update_clears_registry_witness:
  "9 \<in> set (dict_keys (data station_stale)) \<and>
   camera_list backend_ok list_request = Inr [camera1, camera2] \<and>
   9 \<notin> cd_id ` set [camera1, camera2] \<and>
   9 \<notin> set (dict_keys (data (snd (update backend_ok station_stale))))"
proof -
  have before: "9 \<in> set (dict_keys (data station_stale))"
    by (simp add: station_stale_def dict_keys_def)
  have cl: "camera_list backend_ok list_request = Inr [camera1, camera2]"
    by (simp add: backend_ok_def)
  have absent: "9 \<notin> cd_id ` set [camera1, camera2]"
    by (simp add: camera1_def camera2_def)
  from update_clears_registry [of backend_ok station_stale, THEN conjunct2, THEN conjunct1,
      rule_format, OF cl before absent] before cl absent
  show ?thesis by simp
qed

text \<open>
  C5. Two calls of \<open>update\<close> against a backend that gives the same answers both times:
  the registry after the second call equals the registry after the first, and so does
  the outcome of the call.
\<close>

theorem update_idempotent:
  "data (snd (update B (snd (update B s)))) = data (snd (update B s)) \<and>
   fst (update B (snd (update B s))) = fst (update B s)"
  using update_indep [of B "snd (update B s)" s] by simp

theorem update_idempotent_witness:
  "data (snd (update backend_ok (snd (update backend_ok station_stale)))) =
     data (snd (update backend_ok station_stale)) \<and>
   fst (update backend_ok (snd (update backend_ok station_stale))) =
     fst (update backend_ok station_stale)"
  by (rule update_idempotent)

section \<open>Lookups\<close>

text \<open>
  C6. For a camera id that is not a key of the registry, \<open>get_camera\<close> and
  \<open>is_motion_detection_enabled\<close> both fail with the key-not-found error for that id;
  neither returns a value.
\<close>

theorem get_camera_absent_key:
  assumes "camera_id \<notin> set (dict_keys (data s))"
  shows "get_camera s camera_id = Inl (KeyError camera_id) \<and>
         is_motion_detection_enabled s camera_id = Inl (KeyError camera_id)"
  using assms
  by (simp add: get_camera_def is_motion_detection_enabled_def in_keys_map_of)

theorem get_camera_absent_key_witness:
  "get_camera station_stale 5 = Inl (KeyError 5) \<and>
   is_motion_detection_enabled station_stale 5 = Inl (KeyError 5)"
  using get_camera_absent_key [of 5 station_stale]
  by (simp add: station_stale_def dict_keys_def)

section \<open>The live-view loop of update\<close>

text \<open>
  C7. The last loop of \<open>update\<close> indexes the registry by the id of each returned
  live-view record. Suppose the list call answers with a non-empty list, every
  \<open>MotionEnum\<close> call answers, and the \<open>GetLiveViewPath\<close> call answers with records
  \<open>lvs\<close>. Then \<open>update\<close> fails with the key-not-found error of the first record whose
  id is not a registry key, if there is one, and returns normally otherwise; and a
  key-not-found error only ever names such an id.
\<close>

theorem live_view_unknown_id_raises_key_error:
  assumes cl: "camera_list B list_request = Inr cds"
    and ne: "cds \<noteq> []"
    and ok: "\<forall>k\<in>set (dict_keys (list_step cds [])). \<exists>md. motion_enum B (motion_request k) = Inr md"
    and lv: "live_view_paths B (live_view_request (id_list (list_step cds []))) = Inr lvs"
  shows "fst (update B s) =
           (case find (\<lambda>lv. lv_id lv \<notin> set (dict_keys (list_step cds []))) lvs of
              None \<Rightarrow> Inr () | Some lv \<Rightarrow> Inl (KeyError (lv_id lv))) \<and>
         ((\<exists>lv\<in>set lvs. lv_id lv \<notin> set (dict_keys (list_step cds []))) \<longrightarrow>
            (\<exists>k. fst (update B s) = Inl (KeyError k) \<and> k \<in> lv_id ` set lvs \<and>
                 k \<notin> set (dict_keys (list_step cds [])))) \<and>
         ((\<forall>lv\<in>set lvs. lv_id lv \<in> set (dict_keys (list_step cds []))) \<longrightarrow>
            fst (update B s) = Inr ()) \<and>
         (\<forall>k. fst (update B s) = Inl (KeyError k) \<longrightarrow>
            k \<in> lv_id ` set lvs \<and> k \<notin> set (dict_keys (list_step cds [])))"
proof -
  let ?ks = "dict_keys (list_step cds [])"
  let ?bad = "\<lambda>lv. lv_id lv \<notin> set ?ks"
  note r = update_live_view_result [OF cl ne ok lv, of s]
  have c2: "\<exists>k. fst (update B s) = Inl (KeyError k) \<and> k \<in> lv_id ` set lvs \<and> k \<notin> set ?ks"
    if "\<exists>lv\<in>set lvs. lv_id lv \<notin> set ?ks"
  proof (cases "find ?bad lvs")
    case None
    with that show ?thesis by (auto simp: find_None_iff)
  next
    case (Some lv')
    then have "lv' \<in> set lvs" and "lv_id lv' \<notin> set ?ks"
      by (auto simp: find_Some_iff)
    with r Some show ?thesis by auto
  qed
  have c3: "fst (update B s) = Inr ()" if "\<forall>lv\<in>set lvs. lv_id lv \<in> set ?ks"
  proof -
    from that have "find ?bad lvs = None" by (simp add: find_None_iff)
    with r show ?thesis by simp
  qed
  have c4: "k \<in> lv_id ` set lvs \<and> k \<notin> set ?ks" if "fst (update B s) = Inl (KeyError k)" for k
    using update_key_error_only_from_live_view [OF that] cl lv by auto
  from r c2 c3 c4 show ?thesis by blast
qed

theorem live_view_unknown_id_raises_key_error_witness:
  "fst (update backend_stray_live_view station0) = Inl (KeyError 7) \<and>
   fst (update backend_ok station0) = Inr ()"
proof -
  have ne: "[camera1, camera2] \<noteq> []" by simp
  have cl1: "camera_list backend_stray_live_view list_request = Inr [camera1, camera2]"
    by (simp add: backend_stray_live_view_def backend_ok_def)
  have ok1: "\<forall>k\<in>set (dict_keys (list_step [camera1, camera2] [])).
               \<exists>md. motion_enum backend_stray_live_view (motion_request k) = Inr md"
    by (simp add: backend_stray_live_view_def backend_ok_def)
  have lv1: "live_view_paths backend_stray_live_view
               (live_view_request (id_list (list_step [camera1, camera2] []))) =
             Inr [live_view1, live_view7]"
    by (simp add: backend_stray_live_view_def)
  note w1 = live_view_unknown_id_raises_key_error
    [OF cl1 ne ok1 lv1, of station0, THEN conjunct1]
  have cl2: "camera_list backend_ok list_request = Inr [camera1, camera2]"
    by (simp add: backend_ok_def)
  have ok2: "\<forall>k\<in>set (dict_keys (list_step [camera1, camera2] [])).
               \<exists>md. motion_enum backend_ok (motion_request k) = Inr md"
    by (simp add: backend_ok_def)
  have lv2: "live_view_paths backend_ok
               (live_view_request (id_list (list_step [camera1, camera2] []))) =
             Inr [live_view1, live_view2]"
    by (simp add: backend_ok_def)
  note w2 = live_view_unknown_id_raises_key_error
    [OF cl2 ne ok2 lv2, of station0, THEN conjunct1]
  from w1 [unfolded keys_camera1_camera2] w2 [unfolded keys_camera1_camera2]
  show ?thesis
    by (simp add: live_view1_def live_view2_def live_view7_def)
qed

section \<open>Remote operations\<close>

text \<open>
  C8. \<open>enable_camera\<close> and \<open>disable_camera\<close> issue one request to the Camera API,
  with method \<open>Enable\<close> respectively \<open>Disable\<close>, whose only parameter \<open>idList\<close> is the
  given \<open>camera_id\<close> unchanged, whatever value it is (a single id or a comma-joined
  string); each returns the \<open>success\<close> flag of the answer, or raises the transport's
  failure.
\<close>

theorem enable_disable_forward_id_list:
  "issued s (snd (enable_camera B camera_id s)) = [enable_request camera_id] \<and>
   req_api (enable_request camera_id) = CAMERA_API_KEY \<and>
   req_method (enable_request camera_id) = ''Enable'' \<and>
   req_params (enable_request camera_id) = Some [(''idList'', camera_id)] \<and>
   fst (enable_camera B camera_id s) =
     (case success_flag B (enable_request camera_id) of
        Inl e \<Rightarrow> Inl (Transport e) | Inr success \<Rightarrow> Inr success) \<and>
   issued s (snd (disable_camera B camera_id s)) = [disable_request camera_id] \<and>
   req_api (disable_request camera_id) = CAMERA_API_KEY \<and>
   req_method (disable_request camera_id) = ''Disable'' \<and>
   req_params (disable_request camera_id) = Some [(''idList'', camera_id)] \<and>
   fst (disable_camera B camera_id s) =
     (case success_flag B (disable_request camera_id) of
        Inl e \<Rightarrow> Inl (Transport e) | Inr success \<Rightarrow> Inr success)"
  by (simp add: enable_camera_def disable_camera_def issued_dsm_get fst_dsm_get
        enable_request_def disable_request_def)

theorem enable_disable_forward_id_list_witness:
  "issued station0 (snd (enable_camera backend_ok (PyStr ''1,2,3'') station0)) =
     [\<lparr>req_api = ''SYNO.SurveillanceStation.Camera'', req_method = ''Enable'',
       req_params = Some [(''idList'', PyStr ''1,2,3'')], req_max_version = None\<rparr>] \<and>
   fst (enable_camera backend_ok (PyStr ''1,2,3'') station0) = Inr True \<and>
   issued station0 (snd (disable_camera backend_ok (PyStr ''4'') station0)) =
     [\<lparr>req_api = ''SYNO.SurveillanceStation.Camera'', req_method = ''Disable'',
       req_params = Some [(''idList'', PyStr ''4'')], req_max_version = None\<rparr>] \<and>
   fst (disable_camera backend_ok (PyStr ''4'') station0) = Inr True"
  using enable_disable_forward_id_list [of station0 backend_ok "PyStr ''1,2,3''"]
    enable_disable_forward_id_list [of station0 backend_ok "PyStr ''4''"]
  by (simp add: enable_request_def disable_request_def CAMERA_API_KEY_def backend_ok_def)

text \<open>
  C9. \<open>set_home_mode\<close> issues one \<open>Switch\<close> request to the HomeMode API whose \<open>on\<close>
  parameter is the string \<open>true\<close> for \<open>True\<close> and \<open>false\<close> for \<open>False\<close>, and returns
  the \<open>success\<close> flag of the answer.
\<close>

theorem set_home_mode_serialises_state:
  "req_params (home_mode_request True) = Some [(''on'', PyStr ''true'')] \<and>
   req_params (home_mode_request False) = Some [(''on'', PyStr ''false'')] \<and>
   req_api (home_mode_request state) = HOME_MODE_API_KEY \<and>
   req_method (home_mode_request state) = ''Switch'' \<and>
   issued s (snd (set_home_mode B state s)) = [home_mode_request state] \<and>
   fst (set_home_mode B state s) =
     (case success_flag B (home_mode_request state) of
        Inl e \<Rightarrow> Inl (Transport e) | Inr success \<Rightarrow> Inr success)"
  by (simp add: set_home_mode_def issued_dsm_get fst_dsm_get home_mode_request_def
        lower_str_bool)

theorem set_home_mode_serialises_state_witness:
  "issued station0 (snd (set_home_mode backend_ok True station0)) =
     [\<lparr>req_api = ''SYNO.SurveillanceStation.HomeMode'', req_method = ''Switch'',
       req_params = Some [(''on'', PyStr ''true'')], req_max_version = None\<rparr>] \<and>
   fst (set_home_mode backend_ok True station0) = Inr True"
  using set_home_mode_serialises_state [of True station0 backend_ok]
  by (simp add: home_mode_request_def HOME_MODE_API_KEY_def backend_ok_def lower_str_bool)

text \<open>
  C10. Each of the eight remote operations issues exactly one request and leaves the
  camera registry as it was, from every state and whatever the backend answers.
\<close>

theorem remote_operations_keep_registry:
  "data (snd (enable_camera B camera_id s)) = data s \<and>
   length (issued s (snd (enable_camera B camera_id s))) = 1 \<and>
   data (snd (disable_camera B camera_id s)) = data s \<and>
   length (issued s (snd (disable_camera B camera_id s))) = 1 \<and>
   data (snd (capture_camera_image B camera_id save s)) = data s \<and>
   length (issued s (snd (capture_camera_image B camera_id save s))) = 1 \<and>
   data (snd (download_snapshot B snapshot_id snapshot_size s)) = data s \<and>
   length (issued s (snd (download_snapshot B snapshot_id snapshot_size s))) = 1 \<and>
   data (snd (enable_motion_detection K B camera_id s)) = data s \<and>
   length (issued s (snd (enable_motion_detection K B camera_id s))) = 1 \<and>
   data (snd (disable_motion_detection K B camera_id s)) = data s \<and>
   length (issued s (snd (disable_motion_detection K B camera_id s))) = 1 \<and>
   data (snd (get_home_mode_status B s)) = data s \<and>
   length (issued s (snd (get_home_mode_status B s))) = 1 \<and>
   data (snd (set_home_mode B state s)) = data s \<and>
   length (issued s (snd (set_home_mode B state s))) = 1"
  by (simp add: enable_camera_def disable_camera_def capture_camera_image_def
        download_snapshot_def enable_motion_detection_def disable_motion_detection_def
        get_home_mode_status_def set_home_mode_def issued_dsm_get data_dsm_get)

theorem remote_operations_keep_registry_witness:
  "data (snd (enable_camera backend_list_down (PyInt 1) station_stale)) = data station_stale \<and>
   length (issued station_stale (snd (enable_camera backend_list_down (PyInt 1) station_stale))) = 1 \<and>
   data (snd (enable_motion_detection sample_const backend_ok (PyInt 9) station_stale)) =
     data station_stale \<and>
   length (issued station_stale
     (snd (enable_motion_detection sample_const backend_ok (PyInt 9) station_stale))) = 1 \<and>
   data (snd (set_home_mode backend_ok False station_stale)) = data station_stale \<and>
   length (issued station_stale (snd (set_home_mode backend_ok False station_stale))) = 1"
  using remote_operations_keep_registry
    [of backend_list_down "PyInt 1" station_stale True "PyInt 0" "PyInt 0" sample_const False]
    remote_operations_keep_registry
    [of backend_ok "PyInt 9" station_stale True "PyInt 0" "PyInt 0" sample_const False]
  by simp

end
